theory Spec2Isabelle
  imports Main "HOL-Library.Word" "HOL-Library.Sublist"
begin

unbundle bit_operations_syntax

chapter \<open>Neurality Health AI: the audio bridge, the tool server and the agent\<close>

text \<open>
  A shallow embedding of three source files of the repository:
  \<^item> \<^verbatim>\<open>src/twilio/webhook.js\<close>: the mu-law decoder, the per-connection turn-taking state
    (utterance buffer, silence checker, barge-in) and the outgoing frame loop;
  \<^item> \<^verbatim>\<open>src/mcp/server.js\<close>: the tool endpoints and \<^verbatim>\<open>simulateTool\<close>;
  \<^item> \<^verbatim>\<open>src/livekit/agent.js\<close>: slot merging and the audit hand-off of
    \<^verbatim>\<open>ConversationAgent\<close>.
  JavaScript runs each callback to completion, so every callback (and every stretch of an
  \<^verbatim>\<open>async\<close> function between two \<^verbatim>\<open>await\<close>s) is one atomic step of the model.
\<close>

section \<open>JSON values and strings\<close>

datatype jval =
    JNull
  | JBool bool
  | JNum int
  | JStr string
  | JArr "jval list"
  | JObj "(string \<times> jval) list"

text \<open>
  A parsed JSON value. Numbers are integers (the program reads and writes no others), and
  an object is the list of its properties, each key once, in insertion order.

  Property read \<^verbatim>\<open>o.k\<close> on such a value; \<open>None\<close> is \<^verbatim>\<open>undefined\<close>.
\<close>

fun get_prop :: "jval \<Rightarrow> string \<Rightarrow> jval option" where
  "get_prop (JObj kvs) k = map_of kvs k"
| "get_prop _ k = None"

text \<open>JavaScript truthiness of a value that may be \<^verbatim>\<open>undefined\<close>.\<close>

fun truthy :: "jval option \<Rightarrow> bool" where
  "truthy None = False"
| "truthy (Some JNull) = False"
| "truthy (Some (JBool b)) = b"
| "truthy (Some (JNum n)) = (n \<noteq> 0)"
| "truthy (Some (JStr s)) = (s \<noteq> [])"
| "truthy (Some (JArr _)) = True"
| "truthy (Some (JObj _)) = True"

text \<open>
  \<^verbatim>\<open>toLowerCase\<close> and \<^verbatim>\<open>toUpperCase\<close> on the bytes of a string: the ASCII letters change
  case, every other byte stays.
\<close>

definition lower_char :: "char \<Rightarrow> char" where
  "lower_char c =
     (let n = (of_char c :: nat)
      in if 65 \<le> n \<and> n \<le> 90 then char_of (n + 32) else c)"

definition upper_char :: "char \<Rightarrow> char" where
  "upper_char c =
     (let n = (of_char c :: nat)
      in if 97 \<le> n \<and> n \<le> 122 then char_of (n - 32) else c)"

definition toLowerCase :: "string \<Rightarrow> string" where
  "toLowerCase s = map lower_char s"

definition toUpperCase :: "string \<Rightarrow> string" where
  "toUpperCase s = map upper_char s"

text \<open>\<^verbatim>\<open>s.startsWith(needle)\<close> and \<^verbatim>\<open>s.includes(needle)\<close>, searching from the left.\<close>

fun starts_with :: "string \<Rightarrow> string \<Rightarrow> bool" where
  "starts_with s [] = True"
| "starts_with [] (n # ns) = False"
| "starts_with (c # cs) (n # ns) = (c = n \<and> starts_with cs ns)"

fun includes_str :: "string \<Rightarrow> string \<Rightarrow> bool" where
  "includes_str [] needle = (needle = [])"
| "includes_str (c # cs) needle = (starts_with (c # cs) needle \<or> includes_str cs needle)"

text \<open>\<^verbatim>\<open>s.slice(a, b)\<close> for \<open>0 \<le> a \<le> b\<close>.\<close>

definition slice :: "string \<Rightarrow> nat \<Rightarrow> nat \<Rightarrow> string" where
  "slice s a b = take (b - a) (drop a s)"

section \<open>The audio codec (webhook.js)\<close>

type_synonym byte = "8 word"

text \<open>A store into an \<^verbatim>\<open>Int16Array\<close> keeps the low 16 bits, read as two's complement.\<close>

definition toInt16 :: "int \<Rightarrow> int" where
  "toInt16 x = signed_take_bit 15 x"

definition MULAW_MAX :: "32 word" where "MULAW_MAX = 0x1FFF"
definition BIAS :: "32 word" where "BIAS = 0x84"
definition SIGN_BIT :: "32 word" where "SIGN_BIT = 0x80"
definition QUANT_MASK :: "32 word" where "QUANT_MASK = 0x0F"
definition SEG_SHIFT :: nat where "SEG_SHIFT = 4"
definition SEG_MASK :: "32 word" where "SEG_MASK = 0x70"

text \<open>
  The body of the loop of \<^verbatim>\<open>mulawToPcm16\<close>. The bitwise operators of JavaScript work on
  32-bit integers; \<^verbatim>\<open>t -= BIAS\<close> and \<^verbatim>\<open>-t\<close> are number arithmetic.
\<close>

definition mulawToPcm16_sample :: "byte \<Rightarrow> int" where
  "mulawToPcm16_sample mu =
     (let uVal = (NOT (ucast mu :: 32 word)) AND 0xff;
          t0 = push_bit 3 (uVal AND QUANT_MASK) + BIAS;
          t1 = push_bit (unat (drop_bit SEG_SHIFT (uVal AND SEG_MASK))) t0;
          t2 = sint t1 - sint BIAS
      in toInt16 (if uVal AND SIGN_BIT \<noteq> 0 then - t2 else t2))"

definition mulawToPcm16 :: "byte list \<Rightarrow> int list" where
  "mulawToPcm16 muBuf = map mulawToPcm16_sample muBuf"

text \<open>
  Modelled from the spec: the segment (exponent) table of the encoder \<^verbatim>\<open>encode\<close> of the
  package \<^verbatim>\<open>mulaw-js\<close>, which webhook.js imports and whose code is not part of the sources.
  The spec calls the codec "the standard logarithmic narrow-band codec table", so the
  encoder is taken to be the standard G.711 mu-law compressor for 16-bit samples.
\<close>

definition segment :: "int \<Rightarrow> int" where
  "segment v =
     (if v < 256 then 0 else if v < 512 then 1 else if v < 1024 then 2
      else if v < 2048 then 3 else if v < 4096 then 4 else if v < 8192 then 5
      else if v < 16384 then 6 else 7)"

text \<open>
  Modelled from the spec: \<^verbatim>\<open>encode\<close> of \<^verbatim>\<open>mulaw-js\<close> on one sample, as the standard
  compressor: the sign, the magnitude clipped at 32635 and biased by 0x84, its segment, four
  mantissa bits, and all eight bits inverted.
\<close>

definition muLawEncode_sample :: "int \<Rightarrow> byte" where
  "muLawEncode_sample sample =
     (let sign = (if sample < 0 then 0x80 else 0);
          mag = (if sample < 0 then - sample else sample);
          biased = min mag 32635 + 0x84;
          exponent = segment biased;
          mantissa = (biased div 2 ^ nat (exponent + 3)) mod 16
      in word_of_int (255 - (sign + exponent * 16 + mantissa)))"

text \<open>Modelled from the spec: \<^verbatim>\<open>encode\<close> of \<^verbatim>\<open>mulaw-js\<close> on a buffer of samples.\<close>

definition muLawEncode :: "int list \<Rightarrow> byte list" where
  "muLawEncode samples = map muLawEncode_sample samples"

section \<open>The outgoing frame loop (webhook.js, sendPcm16AsMulaw)\<close>

text \<open>What a callback of the connection hands to the outside.\<close>

datatype effect =
    SendMedia "string option" "byte list"
  | SttRequest "int list"
  | AgentRequest string
  | TtsRequest string

definition FRAME_SAMPLES :: nat where "FRAME_SAMPLES = 160"

text \<open>
  Nearest-sample resampling to 8000 Hz. The source computes \<^verbatim>\<open>ratio = sampleRate / 8000\<close>,
  \<^verbatim>\<open>Math.floor(length / ratio)\<close> and \<^verbatim>\<open>Math.floor(i * ratio)\<close> in floating point; the
  model uses the exact quotients, which agree with them for the only rate the program
  passes (24000, ratio 3).
\<close>

definition resample8k :: "int list \<Rightarrow> nat \<Rightarrow> int list" where
  "resample8k int16 sampleRate =
     (if sampleRate = 8000 then int16
      else map (\<lambda>i. int16 ! ((i * sampleRate) div 8000))
             [0 ..< (length int16 * 8000) div sampleRate])"

text \<open>
  The \<^verbatim>\<open>for\<close> loop over 160-sample slices: a slice shorter than a frame ends the loop, and
  so does a socket that is not open (\<^verbatim>\<open>readyState \<noteq> 1\<close>). A \<^verbatim>\<open>send\<close> on an open socket is
  taken to succeed.
\<close>

function send_frames :: "string option \<Rightarrow> nat \<Rightarrow> int list \<Rightarrow> effect list" where
  "send_frames sid readyState src =
     (if length src < FRAME_SAMPLES then []
      else if readyState = 1
        then SendMedia sid (muLawEncode (take FRAME_SAMPLES src))
               # send_frames sid readyState (drop FRAME_SAMPLES src)
        else [])"
  by pat_completeness auto
termination
  by (relation "measure (\<lambda>(sid, readyState, src). length src)") (auto simp: FRAME_SAMPLES_def)

declare send_frames.simps [simp del]

definition sendPcm16AsMulaw :: "string option \<Rightarrow> nat \<Rightarrow> int list \<Rightarrow> nat \<Rightarrow> effect list" where
  "sendPcm16AsMulaw sid readyState int16 sampleRate =
     (let src = resample8k int16 sampleRate
      in send_frames sid readyState src)"

section \<open>The per-connection turn state (webhook.js)\<close>

text \<open>
  Where the running \<^verbatim>\<open>processUtterance\<close> call is suspended: at the \<^verbatim>\<open>await\<close> of the
  transcription, of the agent's reply, or of the synthesis; or not running.
\<close>

datatype await_point = NotRunning | AwaitTranscript | AwaitReply | AwaitAudio

record session =
  pcmBuffer :: "int list list"
  lastMediaAt :: int
  firstMediaAt :: int
  processing :: bool
  aiSpeaking :: bool
  aiSpeakingTimeout :: "nat option"
  streamSid :: "string option"
  suspended :: await_point

definition SILENCE_MS :: int where "SILENCE_MS = 800"
definition MAX_UTTERANCE_MS :: int where "MAX_UTTERANCE_MS = 6000"
definition MIN_AUDIO_SAMPLES :: nat where "MIN_AUDIO_SAMPLES = 4000"
definition BARGE_IN_THRESHOLD :: nat where "BARGE_IN_THRESHOLD = 3200"

text \<open>The state set up by the connection handler; \<open>t0\<close> is \<^verbatim>\<open>Date.now()\<close> at that moment.\<close>

definition new_session :: "int \<Rightarrow> session" where
  "new_session t0 =
     \<lparr> pcmBuffer = [], lastMediaAt = t0, firstMediaAt = 0, processing = False,
       aiSpeaking = False, aiSpeakingTimeout = None, streamSid = None,
       suspended = NotRunning \<rparr>"

definition total_samples :: "int list list \<Rightarrow> nat" where
  "total_samples chunks = sum_list (map length chunks)"

definition concatInt16 :: "int list list \<Rightarrow> int list" where
  "concatInt16 chunks = concat chunks"

text \<open>\<^verbatim>\<open>!streamSid\<close>: the identifier is null, undefined or the empty string.\<close>

definition no_streamSid :: "session \<Rightarrow> bool" where
  "no_streamSid s = (case streamSid s of None \<Rightarrow> True | Some sid \<Rightarrow> sid = [])"

text \<open>
  The \<^verbatim>\<open>media\<close> case of the message handler. \<open>mu\<close> is the base64-decoded payload.
  The callback reads the clock once when the caller is heard normally (\<open>now\<close>) and twice
  in a row on a barge-in (\<open>now\<close> for \<^verbatim>\<open>firstMediaAt\<close>, then \<open>now2\<close> for \<^verbatim>\<open>lastMediaAt\<close>).
\<close>

definition on_media :: "session \<Rightarrow> byte list \<Rightarrow> int \<Rightarrow> int \<Rightarrow> session" where
  "on_media s mu now now2 =
     (let pcm16 = mulawToPcm16 mu in
      if aiSpeaking s then
        (let s1 = s\<lparr>pcmBuffer := pcmBuffer s @ [pcm16]\<rparr>;
             totalSamples = total_samples (pcmBuffer s1)
         in if totalSamples > BARGE_IN_THRESHOLD
            then s1\<lparr>aiSpeaking := False, aiSpeakingTimeout := None,
                    firstMediaAt := now, lastMediaAt := now2\<rparr>
            else s1)
      else
        s\<lparr>lastMediaAt := now,
          firstMediaAt := (if firstMediaAt s = 0 then now else firstMediaAt s),
          pcmBuffer := pcmBuffer s @ [pcm16]\<rparr>)"

text \<open>The \<^verbatim>\<open>finally\<close> block of \<^verbatim>\<open>processUtterance\<close>, which also ends the call.\<close>

definition pu_finally :: "session \<Rightarrow> session" where
  "pu_finally s = s\<lparr>processing := False, firstMediaAt := 0, suspended := NotRunning\<rparr>"

text \<open>\<^verbatim>\<open>processUtterance\<close> from its entry to the first \<^verbatim>\<open>await\<close>.\<close>

definition processUtterance :: "session \<Rightarrow> session \<times> effect list" where
  "processUtterance s =
     (if processing s then (s, [])
      else
        (let samples = concatInt16 (pcmBuffer s);
             s1 = s\<lparr>processing := True, pcmBuffer := []\<rparr>
         in if length samples < MIN_AUDIO_SAMPLES then (pu_finally s1, [])
            else (s1\<lparr>suspended := AwaitTranscript\<rparr>, [SttRequest samples])))"

text \<open>The callback of \<^verbatim>\<open>setInterval\<close>, the silence checker.\<close>

definition silence_check :: "session \<Rightarrow> int \<Rightarrow> session \<times> effect list" where
  "silence_check s now =
     (let hasBuffer = (pcmBuffer s \<noteq> []) in
      if no_streamSid s then (s, [])
      else if aiSpeaking s then (s, [])
      else if hasBuffer then
        (let silenceDuration = now - lastMediaAt s;
             utteranceDuration = now - (if firstMediaAt s \<noteq> 0 then firstMediaAt s else now)
         in if silenceDuration > SILENCE_MS then processUtterance s
            else if firstMediaAt s \<noteq> 0 \<and> utteranceDuration > MAX_UTTERANCE_MS
              then processUtterance s
            else (s, []))
      else (s, []))"

text \<open>
  \<^verbatim>\<open>processUtterance\<close> resumed with the transcript (\<^verbatim>\<open>transcribePcm16\<close> returns the empty
  string when the service fails).
\<close>

definition on_transcribed :: "session \<Rightarrow> string \<Rightarrow> session \<times> effect list" where
  "on_transcribed s text =
     (if suspended s \<noteq> AwaitTranscript then (s, [])
      else if text = [] \<or> length text < 3 then (pu_finally s, [])
      else (s\<lparr>suspended := AwaitReply\<rparr>, [AgentRequest text]))"

text \<open>Resumed with the agent's reply; \<open>None\<close> when \<^verbatim>\<open>agent.processUtterance\<close> throws.\<close>

definition on_replied :: "session \<Rightarrow> string option \<Rightarrow> session \<times> effect list" where
  "on_replied s r =
     (if suspended s \<noteq> AwaitReply then (s, [])
      else case r of
             None \<Rightarrow> (pu_finally s, [])
           | Some reply \<Rightarrow> (s\<lparr>suspended := AwaitAudio\<rparr>, [TtsRequest reply]))"

text \<open>
  Resumed with the result of \<^verbatim>\<open>textToAudio\<close>: \<open>None\<close> for \<^verbatim>\<open>null\<close>, else the samples, which
  the function always declares as 24000 Hz. The frame loop has no \<^verbatim>\<open>await\<close> inside, and the
  continuation after \<^verbatim>\<open>await sendPcm16AsMulaw(...)\<close> is a microtask, so everything up to the
  \<^verbatim>\<open>finally\<close> block runs before any other callback. The timer is kept as its delay in
  whole milliseconds.
\<close>

definition on_synthesized :: "session \<Rightarrow> int list option \<Rightarrow> nat \<Rightarrow> session \<times> effect list" where
  "on_synthesized s audio readyState =
     (if suspended s \<noteq> AwaitAudio then (s, [])
      else case audio of
             None \<Rightarrow> (pu_finally s, [])
           | Some int16 \<Rightarrow>
               (let s1 = s\<lparr>aiSpeaking := True, pcmBuffer := []\<rparr>;
                    frames = sendPcm16AsMulaw (streamSid s1) readyState int16 24000;
                    durationMs = (length int16 * 1000) div 24000;
                    s2 = s1\<lparr>aiSpeakingTimeout := Some (durationMs + 200)\<rparr>
                in (pu_finally s2, frames)))"

text \<open>The callback of the speech-finished timer; it runs only while the timer is pending.\<close>

definition on_speaking_timeout :: "session \<Rightarrow> session" where
  "on_speaking_timeout s =
     (if aiSpeakingTimeout s = None then s
      else s\<lparr>aiSpeaking := False, aiSpeakingTimeout := None\<rparr>)"

text \<open>
  Everything that can happen to an open connection: the messages of the stream (\<open>MsgStart\<close>
  carries \<^verbatim>\<open>data.start.streamSid\<close>, \<open>None\<close> when the field is absent; \<open>MsgInvalid\<close> is a
  message on which the handler throws, which its \<^verbatim>\<open>catch\<close> only logs), the tick of the
  interval, the three resumptions of \<^verbatim>\<open>processUtterance\<close>, and the speech-finished timer.
\<close>

datatype event =
    MsgStart "string option"
  | MsgMedia "byte list" int int
  | MsgStop
  | MsgInvalid
  | IntervalTick int
  | Transcribed string
  | AgentReplied "string option"
  | Synthesized "int list option" nat
  | SpeakingTimeout

fun step :: "session \<Rightarrow> event \<Rightarrow> session \<times> effect list" where
  "step s (MsgStart sid) = (s\<lparr>streamSid := sid\<rparr>, [])"
| "step s (MsgMedia mu now now2) = (on_media s mu now now2, [])"
| "step s MsgStop = (s, [])"
| "step s MsgInvalid = (s, [])"
| "step s (IntervalTick now) = silence_check s now"
| "step s (Transcribed text) = on_transcribed s text"
| "step s (AgentReplied r) = on_replied s r"
| "step s (Synthesized audio readyState) = on_synthesized s audio readyState"
| "step s SpeakingTimeout = (on_speaking_timeout s, [])"

fun run :: "session \<Rightarrow> event list \<Rightarrow> session \<times> effect list" where
  "run s [] = (s, [])"
| "run s (e # es) =
     (let (s1, out1) = step s e; (s2, out2) = run s1 es in (s2, out1 @ out2))"

inductive reachable :: "session \<Rightarrow> bool" where
  reachable_new: "reachable (new_session t0)"
| reachable_step: "reachable s \<Longrightarrow> reachable (fst (step s e))"

fun is_media :: "effect \<Rightarrow> bool" where
  "is_media (SendMedia sid payload) = True"
| "is_media _ = False"

fun is_stt :: "effect \<Rightarrow> bool" where
  "is_stt (SttRequest samples) = True"
| "is_stt _ = False"

text \<open>
  What every reachable state satisfies: \<^verbatim>\<open>processing\<close> is set exactly while a call of
  \<^verbatim>\<open>processUtterance\<close> is suspended, no call is suspended while the reply is being spoken,
  and the speech-finished timer is pending exactly while \<^verbatim>\<open>aiSpeaking\<close> is set.
\<close>

definition session_inv :: "session \<Rightarrow> bool" where
  "session_inv s =
     ((processing s = (suspended s \<noteq> NotRunning)) \<and>
      (\<not> (aiSpeaking s \<and> suspended s \<noteq> NotRunning)) \<and>
      ((aiSpeakingTimeout s \<noteq> None) = aiSpeaking s))"

text \<open>
  Two sessions used as concrete inputs below. In the first the caller has spoken 4000
  samples, the silence checker has handed them to transcription, and no reply is spoken yet
  (thinking). In the second the reply (480 samples at 24000 Hz, one outgoing frame) has
  just been sent and the speech-finished timer is pending (speaking).
\<close>

definition thinking_example :: session where
  "thinking_example =
     fst (run (new_session 0)
            [MsgStart (Some ''MZ1''), MsgMedia (replicate 4000 0xFF) 1000 1000, IntervalTick 2000])"

definition speaking_example :: session where
  "speaking_example =
     fst (run thinking_example
            [Transcribed ''hello'', AgentReplied (Some ''hi''),
             Synthesized (Some (replicate 480 0)) 1])"

text \<open>
  Three more sessions: a caller who has sent one frame and then pauses; the speaking session
  after one inbound frame (below the barge-in threshold) has arrived during the reply; and
  the thinking session once transcript and reply are in and the synthesis is awaited.
\<close>

definition quiet_listener :: session where
  "quiet_listener =
     fst (run (new_session 0) [MsgStart (Some ''MZ1''), MsgMedia (replicate 160 0xFF) 1000 1000])"

definition echo_during_speech :: session where
  "echo_during_speech = fst (step speaking_example (MsgMedia (replicate 160 0x00) 2100 2100))"

definition awaiting_audio :: session where
  "awaiting_audio =
     fst (run thinking_example [Transcribed ''hello'', AgentReplied (Some ''hi'')])"

section \<open>The tool server (server.js)\<close>

datatype js_error = TypeError | RangeError

text \<open>
  \<^verbatim>\<open>bookingStore\<close> is a \<^verbatim>\<open>Map\<close>, kept here as its entries in insertion order. A
  \<^verbatim>\<open>Map\<close> compares keys by SameValueZero: primitive values (strings, numbers, booleans,
  \<^verbatim>\<open>null\<close>, \<^verbatim>\<open>undefined\<close>) by value, objects and arrays by identity. Every request body is
  parsed afresh, so an object or array key of a request is never the key of a stored entry.
\<close>

type_synonym booking_store = "(jval option \<times> jval) list"

fun is_reference :: "jval option \<Rightarrow> bool" where
  "is_reference (Some (JArr xs)) = True"
| "is_reference (Some (JObj kvs)) = True"
| "is_reference _ = False"

text \<open>\<^verbatim>\<open>has\<close> and \<^verbatim>\<open>get\<close> in one: the stored value, \<open>None\<close> when \<^verbatim>\<open>has(key)\<close> is false.\<close>

definition store_get :: "booking_store \<Rightarrow> jval option \<Rightarrow> jval option" where
  "store_get store key = (if is_reference key then None else map_of store key)"

definition store_set :: "booking_store \<Rightarrow> jval option \<Rightarrow> jval \<Rightarrow> booking_store" where
  "store_set store key v =
     (if store_get store key = None then store @ [(key, v)]
      else map (\<lambda>(k, w). if k = key then (k, v) else (k, w)) store)"

text \<open>
  What a call of \<^verbatim>\<open>simulateTool\<close> takes from its environment: \<open>random36\<close> is the string
  \<^verbatim>\<open>Math.random().toString(36)\<close> of the call's single draw, and \<open>slotTimes\<close> is the
  \<^verbatim>\<open>Date\<close> arithmetic of \<^verbatim>\<open>getProviderAvailability\<close> (local time zone included): from
  the value of \<^verbatim>\<open>date_range.start\<close> to the ISO strings of the three slots, \<open>None\<close> when
  \<^verbatim>\<open>toISOString\<close> throws on an invalid date.
\<close>

record tool_env =
  random36 :: string
  slotTimes :: "jval option \<Rightarrow> (string \<times> string) list option"

text \<open>The four cases of the \<^verbatim>\<open>switch\<close> in \<^verbatim>\<open>simulateTool\<close>, then the function itself.\<close>

definition case_checkInsuranceCoverage ::
  "jval \<Rightarrow> booking_store \<Rightarrow> (js_error + jval) \<times> booking_store" where
  "case_checkInsuranceCoverage input store =
     (case get_prop input ''payer'' of
        Some (JStr payer) \<Rightarrow>
          (let covered = (includes_str (toLowerCase payer) ''delta'' \<or>
                          includes_str (toLowerCase payer) ''blue'' \<or>
                          includes_str (toLowerCase payer) ''dental'')
           in (Inr (JObj [(''covered'', JBool covered),
                          (''copay_estimate'', JNum (if covered then 25 else 0)),
                          (''notes'', JStr (if covered then ''Covered under preventive care''
                                            else ''Not in network - cash pay available''))]),
               store))
      | _ \<Rightarrow> (Inl TypeError, store))"

definition case_getProviderAvailability ::
  "jval \<Rightarrow> tool_env \<Rightarrow> booking_store \<Rightarrow> (js_error + jval) \<times> booking_store" where
  "case_getProviderAvailability input env store =
     (case get_prop input ''date_range'' of
        None \<Rightarrow> (Inl TypeError, store)
      | Some JNull \<Rightarrow> (Inl TypeError, store)
      | Some date_range \<Rightarrow>
          (case slotTimes env (get_prop date_range ''start'') of
             None \<Rightarrow> (Inl RangeError, store)
           | Some slotList \<Rightarrow>
               (let provider = (case get_prop input ''provider_id'' of
                                  None \<Rightarrow> JStr ''DR001''
                                | Some p \<Rightarrow> if truthy (Some p) then p else JStr ''DR001'')
                in (Inr (JObj [(''slots'',
                       JArr (map (\<lambda>(slotStart, slotEnd).
                               JObj [(''start'', JStr slotStart), (''end'', JStr slotEnd),
                                     (''provider_id'', provider)]) slotList))]),
                    store))))"

definition case_bookAppointment ::
  "jval \<Rightarrow> tool_env \<Rightarrow> booking_store \<Rightarrow> (js_error + jval) \<times> booking_store" where
  "case_bookAppointment input env store =
     (let key = get_prop input ''idempotency_key'' in
      case store_get store key of
        Some stored \<Rightarrow> (Inr stored, store)
      | None \<Rightarrow>
          (let result = JObj [(''confirmation_id'',
                                JStr (''CONF-'' @ toUpperCase (slice (random36 env) 2 10))),
                              (''status'', JStr ''booked'')]
           in (Inr result, store_set store key result)))"

definition case_sendSms ::
  "tool_env \<Rightarrow> booking_store \<Rightarrow> (js_error + jval) \<times> booking_store" where
  "case_sendSms env store =
     (Inr (JObj [(''queued'', JBool True),
                 (''message_id'', JStr (''SM'' @ toUpperCase (slice (random36 env) 2 12)))]),
      store)"

definition simulateTool ::
  "string \<Rightarrow> jval \<Rightarrow> tool_env \<Rightarrow> booking_store \<Rightarrow> (js_error + jval) \<times> booking_store" where
  "simulateTool name input env store =
     (if name = ''checkInsuranceCoverage'' then case_checkInsuranceCoverage input store
      else if name = ''getProviderAvailability'' then case_getProviderAvailability input env store
      else if name = ''bookAppointment'' then case_bookAppointment input env store
      else if name = ''sendSms'' then case_sendSms env store
      else (Inr (JObj [(''ok'', JBool False)]), store))"


definition tools :: "string list" where
  "tools = [''checkInsuranceCoverage'', ''getProviderAvailability'', ''bookAppointment'',
            ''sendSms'']"

record server =
  bookingStore :: booking_store
  systemLog :: "(string \<times> jval \<times> jval) list"

datatype http_response =
    JsonResponse nat jval
  | UncaughtError js_error
  | NotFound

text \<open>
  The POST handler that \<^verbatim>\<open>startMCPServer\<close> registers for each tool. The validator
  (the package ajv behind \<^verbatim>\<open>validate\<close>) and the schema files are not part of the sources:
  \<open>validate schema data\<close> gives \<^verbatim>\<open>{ok, errors}\<close> and \<open>schemaOf tool\<close> the pair of
  \<^verbatim>\<open>schema.input\<close> and \<^verbatim>\<open>schema.output\<close>. An exception of \<^verbatim>\<open>simulateTool\<close> leaves the
  handler uncaught.
\<close>

definition tool_endpoint ::
  "(jval \<Rightarrow> jval \<Rightarrow> bool \<times> jval) \<Rightarrow> (string \<Rightarrow> jval \<times> jval) \<Rightarrow>
   string \<Rightarrow> jval \<Rightarrow> tool_env \<Rightarrow> server \<Rightarrow> http_response \<times> server" where
  "tool_endpoint validate schemaOf tool body env srv =
     (if tool \<notin> set tools then (NotFound, srv)
      else
        (let (ok, errors) = validate (fst (schemaOf tool)) body in
         if \<not> ok then (JsonResponse 400 (JObj [(''ok'', JBool False), (''errors'', errors)]), srv)
         else
           (case simulateTool tool body env (bookingStore srv) of
              (Inl e, store1) \<Rightarrow> (UncaughtError e, srv\<lparr>bookingStore := store1\<rparr>)
            | (Inr result, store1) \<Rightarrow>
                (let (outOk, outErr) = validate (snd (schemaOf tool)) result in
                 if \<not> outOk
                 then (JsonResponse 500 (JObj [(''ok'', JBool False), (''errors'', outErr)]),
                       srv\<lparr>bookingStore := store1\<rparr>)
                 else (JsonResponse 200 result,
                       srv\<lparr>bookingStore := store1,
                           systemLog := systemLog srv @ [(tool, body, result)]\<rparr>)))))"

text \<open>A sequence of requests, each with its own environment.\<close>

fun serve ::
  "(jval \<Rightarrow> jval \<Rightarrow> bool \<times> jval) \<Rightarrow> (string \<Rightarrow> jval \<times> jval) \<Rightarrow>
   server \<Rightarrow> (string \<times> jval \<times> tool_env) list \<Rightarrow> server" where
  "serve validate schemaOf srv [] = srv"
| "serve validate schemaOf srv ((tool, body, env) # rest) =
     serve validate schemaOf (snd (tool_endpoint validate schemaOf tool body env srv)) rest"

text \<open>
  A validator and a schema table used as concrete inputs below: the input schema of every
  tool requires the property \<^verbatim>\<open>idempotency_key\<close>, the output schema nothing.
\<close>

definition example_validate :: "jval \<Rightarrow> jval \<Rightarrow> bool \<times> jval" where
  "example_validate schema data =
     (case get_prop schema ''required'' of
        Some (JArr [JStr k]) \<Rightarrow>
          if get_prop data k = None
          then (False, JArr [JStr (''must have required property '' @ k)])
          else (True, JNull)
      | _ \<Rightarrow> (True, JNull))"

definition example_schemaOf :: "string \<Rightarrow> jval \<times> jval" where
  "example_schemaOf tool = (JObj [(''required'', JArr [JStr ''idempotency_key''])], JObj [])"

definition example_env :: tool_env where
  "example_env = \<lparr> random36 = ''0.4fzyo82mvyr'', slotTimes = (\<lambda>d. None) \<rparr>"


section \<open>The conversation agent (agent.js)\<close>

record transcript_entry =
  role :: string
  entry_text :: string
  ts :: string

record tool_call =
  trace_tool :: string
  trace_input :: jval
  trace_output :: jval
  trace_ok :: bool

record agent =
  callId :: string
  roomName :: "string option"
  connected :: bool
  transcript :: "transcript_entry list"
  toolTrace :: "tool_call list"
  slots :: "(string \<times> jval) list"
  intents :: "string list"

text \<open>The constructor of \<^verbatim>\<open>ConversationAgent\<close>.\<close>

definition new_agent :: "string \<Rightarrow> agent" where
  "new_agent cid =
     \<lparr> callId = cid, roomName = None, connected = False, transcript = [], toolTrace = [],
       slots = [], intents = [] \<rparr>"

text \<open>
  \<^verbatim>\<open>connect\<close>: \<open>room\<close> is what \<^verbatim>\<open>roomManager.createRoom\<close> returns, \<open>None\<close> when it throws.
\<close>

definition connect :: "agent \<Rightarrow> string option \<Rightarrow> agent" where
  "connect a room =
     (case room of
        Some name \<Rightarrow> a\<lparr>roomName := Some name, connected := True\<rparr>
      | None \<Rightarrow> a\<lparr>roomName := Some (''call-'' @ callId a), connected := True\<rparr>)"

text \<open>
  An assignment \<^verbatim>\<open>o[k] = v\<close> on an object kept as its properties in insertion order, and
  \<^verbatim>\<open>Object.assign(target, source)\<close>, which assigns every property of the source in turn.
\<close>

fun obj_set :: "(string \<times> jval) list \<Rightarrow> string \<Rightarrow> jval \<Rightarrow> (string \<times> jval) list" where
  "obj_set [] k v = [(k, v)]"
| "obj_set ((k1, w) # rest) k v =
     (if k1 = k then (k, v) # rest else (k1, w) # obj_set rest k v)"

definition object_assign ::
  "(string \<times> jval) list \<Rightarrow> (string \<times> jval) list \<Rightarrow> (string \<times> jval) list" where
  "object_assign target source = fold (\<lambda>(k, v) t. obj_set t k v) source target"

text \<open>
  What one turn takes from outside: the responses of the two tool endpoints (the parsed
  body and \<^verbatim>\<open>response.ok\<close>; \<open>None\<close> when \<^verbatim>\<open>fetch\<close> or \<^verbatim>\<open>response.json()\<close> throws) and
  the two dates of the availability request as ISO strings.
\<close>

record turn_env =
  coverageResponse :: "(jval \<times> bool) option"
  availabilityResponse :: "(jval \<times> bool) option"
  tomorrowIso :: string
  endDateIso :: string

definition add_intent :: "string list \<Rightarrow> string \<Rightarrow> string list" where
  "add_intent xs i = (if i \<in> set xs then xs else xs @ [i])"

definition callCheckInsurance :: "agent \<Rightarrow> jval \<Rightarrow> jval \<Rightarrow> turn_env \<Rightarrow> agent" where
  "callCheckInsurance a payer plan env =
     (case coverageResponse env of
        None \<Rightarrow> a
      | Some (result, ok) \<Rightarrow>
          a\<lparr>toolTrace := toolTrace a @
               [\<lparr> trace_tool = ''check_insurance_coverage'',
                  trace_input = JObj [(''payer'', payer), (''plan'', plan),
                                      (''procedure_code'', JStr ''D1110'')],
                  trace_output = result, trace_ok = ok \<rparr>],
            intents := add_intent (intents a) ''coverage_check''\<rparr>)"

definition callGetAvailability :: "agent \<Rightarrow> jval \<Rightarrow> jval option \<Rightarrow> turn_env \<Rightarrow> agent" where
  "callGetAvailability a locationId appointmentType env =
     (case availabilityResponse env of
        None \<Rightarrow> a
      | Some (result, ok) \<Rightarrow>
          a\<lparr>toolTrace := toolTrace a @
               [\<lparr> trace_tool = ''get_provider_availability'',
                  trace_input =
                    JObj [(''location_id'', locationId),
                          (''date_range'', JObj [(''start'', JStr (tomorrowIso env)),
                                                 (''end'', JStr (endDateIso env))]),
                          (''appointment_type'',
                             (case appointmentType of
                                None \<Rightarrow> JStr ''cleaning''
                              | Some t \<Rightarrow> if truthy (Some t) then t else JStr ''cleaning''))],
                  trace_output = result, trace_ok = ok \<rparr>],
            intents := add_intent (intents a) ''availability''\<rparr>)"

text \<open>
  \<^verbatim>\<open>extractSlotsAndCallTools\<close>. \<open>extraction\<close> is the object that \<^verbatim>\<open>JSON.parse\<close> makes of
  the model's answer (the request asks for a JSON object); \<open>None\<close> when the request or the
  parse throws, which the \<^verbatim>\<open>catch\<close> only logs.
\<close>

definition extractSlotsAndCallTools ::
  "agent \<Rightarrow> (string \<times> jval) list option \<Rightarrow> turn_env \<Rightarrow> agent" where
  "extractSlotsAndCallTools a extraction env =
     (case extraction of
        None \<Rightarrow> a
      | Some extracted \<Rightarrow>
          (let a1 = a\<lparr>slots := object_assign (slots a) extracted\<rparr>;
               a2 = (case (map_of extracted ''payer'', map_of extracted ''plan'') of
                       (Some payer, Some plan) \<Rightarrow>
                         if truthy (map_of extracted ''needs_coverage_check'') \<and>
                            truthy (Some payer) \<and> truthy (Some plan)
                         then callCheckInsurance a1 payer plan env else a1
                     | _ \<Rightarrow> a1)
           in (case map_of extracted ''location_id'' of
                 Some loc \<Rightarrow>
                   if truthy (map_of extracted ''needs_availability'') \<and> truthy (Some loc)
                   then callGetAvailability a2 loc (map_of extracted ''appointment_type'') env
                   else a2
               | None \<Rightarrow> a2)))"

text \<open>
  \<^verbatim>\<open>processUtterance\<close> of the agent: one turn. \<open>aiResponse\<close> is the reply of
  \<^verbatim>\<open>generateResponse\<close>, \<open>None\<close> when it throws (the exception leaves the method).
\<close>

definition agent_processUtterance ::
  "agent \<Rightarrow> string \<Rightarrow> string \<Rightarrow> (string \<times> jval) list option \<Rightarrow> turn_env \<Rightarrow>
   string option \<Rightarrow> string \<Rightarrow> string option \<times> agent" where
  "agent_processUtterance a userText timestamp extraction env aiResponse timestamp2 =
     (let a1 = a\<lparr>transcript := transcript a @
                  [\<lparr> role = ''user'', entry_text = userText, ts = timestamp \<rparr>]\<rparr>;
          a2 = extractSlotsAndCallTools a1 extraction env
      in case aiResponse of
           None \<Rightarrow> (None, a2)
         | Some reply \<Rightarrow>
             (Some reply,
              a2\<lparr>transcript := transcript a2 @
                    [\<lparr> role = ''agent'', entry_text = reply, ts = timestamp2 \<rparr>]\<rparr>))"

text \<open>A turn as the slots see it, and a conversation of several turns.\<close>

fun turns :: "agent \<Rightarrow> ((string \<times> jval) list option \<times> turn_env) list \<Rightarrow> agent" where
  "turns a [] = a"
| "turns a ((extraction, env) # rest) = turns (extractSlotsAndCallTools a extraction env) rest"

record audit_data =
  call_id :: string
  audit_transcript :: "transcript_entry list"
  audit_intents :: "string list"
  audit_slots :: "(string \<times> jval) list"
  tool_trace :: "tool_call list"
  outcome_booked :: bool
  outcome_confirmation_id :: jval
  outcome_next_steps :: string

definition auditData :: "agent \<Rightarrow> audit_data" where
  "auditData a =
     \<lparr> call_id = callId a,
       audit_transcript = transcript a,
       audit_intents = intents a,
       audit_slots = slots a,
       tool_trace = toolTrace a,
       outcome_booked = (''book_appointment'' \<in> set (intents a)),
       outcome_confirmation_id =
         (case find (\<lambda>t. trace_tool t = ''book_appointment'') (toolTrace a) of
            None \<Rightarrow> JNull
          | Some t \<Rightarrow>
              (case get_prop (trace_output t) ''confirmation_id'' of
                 None \<Rightarrow> JNull
               | Some c \<Rightarrow> if truthy (Some c) then c else JNull)),
       outcome_next_steps = (if ''send_sms'' \<in> set (intents a) then ''SMS sent'' else ''Pending'') \<rparr>"

text \<open>
  The audit sink of a call (\<^verbatim>\<open>createAudit(callId).push\<close>, one \<^verbatim>\<open>writeFileSync\<close> per call of
  \<^verbatim>\<open>push\<close>) is kept as the list of the records handed to it, oldest first.
\<close>

definition saveAudit :: "agent \<Rightarrow> audit_data list \<Rightarrow> audit_data list" where
  "saveAudit a sink = sink @ [auditData a]"

definition handleDisconnect :: "agent \<Rightarrow> audit_data list \<Rightarrow> agent \<times> audit_data list" where
  "handleDisconnect a sink =
     (let a1 = a\<lparr>connected := False\<rparr> in (a1, saveAudit a1 sink))"

text \<open>
  \<^verbatim>\<open>disconnect\<close>, the teardown that the socket's \<^verbatim>\<open>close\<close> handler and the evaluation
  harness call. The deletion of the room that follows touches neither the agent nor the sink.
\<close>

definition disconnect :: "agent \<Rightarrow> audit_data list \<Rightarrow> agent \<times> audit_data list" where
  "disconnect a sink =
     (let (a1, sink1) = (if connected a then handleDisconnect a sink else (a, sink))
      in (a1, saveAudit a1 sink1))"

text \<open>
  Two extractions in the shape the prompt of \<^verbatim>\<open>extractSlotsAndCallTools\<close> asks for (every
  field present, \<^verbatim>\<open>null\<close> where the utterance says nothing), for the first two utterances
  of the success scenario of the evaluation harness, and the tool responses of the turns.
\<close>

definition extraction_turn1 :: "(string \<times> jval) list" where
  "extraction_turn1 =
     [(''patient_first'', JStr ''Maya''), (''patient_last'', JStr ''Patel''),
      (''phone'', JNull), (''payer'', JStr ''Delta Dental''), (''plan'', JStr ''PPO''),
      (''appointment_type'', JStr ''cleaning''), (''time_pref'', JNull),
      (''location_id'', JNull), (''needs_coverage_check'', JBool True),
      (''needs_availability'', JBool False), (''needs_booking'', JBool False)]"

definition extraction_turn2 :: "(string \<times> jval) list" where
  "extraction_turn2 =
     [(''patient_first'', JNull), (''patient_last'', JNull),
      (''phone'', JStr ''+14085551234''), (''payer'', JNull), (''plan'', JNull),
      (''appointment_type'', JNull), (''time_pref'', JStr ''next Tuesday morning''),
      (''location_id'', JStr ''San Jose''), (''needs_coverage_check'', JBool False),
      (''needs_availability'', JBool True), (''needs_booking'', JBool False)]"

definition example_turn_env :: turn_env where
  "example_turn_env =
     \<lparr> coverageResponse =
         Some (JObj [(''covered'', JBool True), (''copay_estimate'', JNum 25),
                     (''notes'', JStr ''Covered under preventive care'')], True),
       availabilityResponse = Some (JObj [(''slots'', JArr [])], True),
       tomorrowIso = ''2025-01-02T08:00:00.000Z'',
       endDateIso = ''2025-01-09T08:00:00.000Z'' \<rparr>"

section \<open>The codec, proved\<close>

text \<open>
  Decoding and re-encoding, checked byte by byte in four quarters of the range. The one
  exception is 127 (0x7F).
\<close>

lemma decode_encode_q0:
  "list_all (\<lambda>n. n = 127 \<or>
       muLawEncode_sample (mulawToPcm16_sample (word_of_nat n)) = word_of_nat n) [0..<64]"
  by code_simp

lemma decode_encode_q1:
  "list_all (\<lambda>n. n = 127 \<or>
       muLawEncode_sample (mulawToPcm16_sample (word_of_nat n)) = word_of_nat n) [64..<128]"
  by code_simp

lemma decode_encode_q2:
  "list_all (\<lambda>n. n = 127 \<or>
       muLawEncode_sample (mulawToPcm16_sample (word_of_nat n)) = word_of_nat n) [128..<192]"
  by code_simp

lemma decode_encode_q3:
  "list_all (\<lambda>n. n = 127 \<or>
       muLawEncode_sample (mulawToPcm16_sample (word_of_nat n)) = word_of_nat n) [192..<256]"
  by code_simp

lemma list_all_uptD: "list_all P [a..<b] \<Longrightarrow> a \<le> n \<Longrightarrow> n < b \<Longrightarrow> P n"
  by (simp add: list_all_iff)

lemma decode_encode_nat:
  assumes "n < 256" and "n \<noteq> 127"
  shows "muLawEncode_sample (mulawToPcm16_sample (word_of_nat n)) = word_of_nat n"
proof -
  consider "n < 64" | "64 \<le> n" "n < 128" | "128 \<le> n" "n < 192" | "192 \<le> n" "n < 256"
    using assms(1) by linarith
  then have "n = 127 \<or>
       muLawEncode_sample (mulawToPcm16_sample (word_of_nat n)) = word_of_nat n"
  proof cases
    case 1
    show ?thesis by (rule list_all_uptD [OF decode_encode_q0 le0 1])
  next
    case 2
    show ?thesis by (rule list_all_uptD [OF decode_encode_q1 2])
  next
    case 3
    show ?thesis by (rule list_all_uptD [OF decode_encode_q2 3])
  next
    case 4
    show ?thesis by (rule list_all_uptD [OF decode_encode_q3 4])
  qed
  with assms(2) show ?thesis by blast
qed

lemma sample_roundtrip:
  assumes "b \<noteq> 0x7F"
  shows "muLawEncode_sample (mulawToPcm16_sample b) = b"
proof -
  have lt: "unat b < 256"
    using unsigned_less [of b] by simp
  have ne: "unat b \<noteq> 127"
  proof
    assume "unat b = 127"
    then have "word_of_nat (unat b) = (word_of_nat 127 :: byte)" by simp
    then show False using assms by simp
  qed
  from decode_encode_nat [OF lt ne] show ?thesis by simp
qed

lemma decode_00: "mulawToPcm16_sample 0x00 = - 32124"
  by (simp add: mulawToPcm16_sample_def toInt16_def BIAS_def SIGN_BIT_def
        QUANT_MASK_def SEG_SHIFT_def SEG_MASK_def)

lemma decode_7F: "mulawToPcm16_sample 0x7F = 0"
  by (simp add: mulawToPcm16_sample_def toInt16_def BIAS_def SIGN_BIT_def
        QUANT_MASK_def SEG_SHIFT_def SEG_MASK_def)

lemma decode_FF: "mulawToPcm16_sample 0xFF = 0"
  by (simp add: mulawToPcm16_sample_def toInt16_def BIAS_def SIGN_BIT_def
        QUANT_MASK_def SEG_SHIFT_def SEG_MASK_def)

lemma encode_0: "muLawEncode_sample 0 = 0xFF"
  by code_simp

text \<open>
  The decoder is not injective, whatever the encoder: no function at all maps its outputs
  back to all 256 bytes.
\<close>

lemma no_encoder_inverts_decode:
  "\<not> (\<exists>enc. \<forall>b. enc (mulawToPcm16_sample b) = b)"
proof
  assume "\<exists>enc. \<forall>b. enc (mulawToPcm16_sample b) = b"
  then obtain enc :: "int \<Rightarrow> byte" where e: "\<And>b. enc (mulawToPcm16_sample b) = b"
    by blast
  from e [of "0x7F"] e [of "0xFF"] have "(0x7F :: byte) = 0xFF"
    by (simp add: decode_7F decode_FF)
  then show False by simp
qed

text \<open>
  C9, as amended. For every buffer of wire bytes that does not contain 0x7F (the code of
  negative zero), decoding with \<^verbatim>\<open>mulawToPcm16\<close> and encoding again gives the buffer back.
\<close>

theorem mulaw_roundtrip:
  "0x7F \<notin> set muBuf \<Longrightarrow> muLawEncode (mulawToPcm16 muBuf) = muBuf"
  by (induction muBuf) (simp_all add: muLawEncode_def mulawToPcm16_def sample_roundtrip)

text \<open>The round trip on three bytes: both ends of the range and one in the middle.\<close>

theorem mulaw_roundtrip_witness:
  "0x7F \<notin> set [0x00, 0x55, 0xFF :: byte] \<and>
   muLawEncode (mulawToPcm16 [0x00, 0x55, 0xFF]) = [0x00, 0x55, 0xFF]"
  using mulaw_roundtrip [of "[0x00, 0x55, 0xFF]"] by simp

text \<open>
  C9 as stated fails at the byte 0x7F: it decodes to the same sample as 0xFF, namely 0, and
  the round trip gives 0xFF.
\<close>

theorem mulaw_roundtrip_counterexample:
  "mulawToPcm16 [0x7F] = mulawToPcm16 [0xFF]
   \<and> muLawEncode (mulawToPcm16 [0x7F]) = [0xFF]
   \<and> muLawEncode (mulawToPcm16 [0x7F]) \<noteq> [0x7F]"
  by (simp add: muLawEncode_def mulawToPcm16_def decode_7F decode_FF encode_0)

section \<open>Turn taking, proved\<close>

subsection \<open>The concrete sessions\<close>

lemma thinking_example_eq:
  "thinking_example =
     \<lparr> pcmBuffer = [], lastMediaAt = 1000, firstMediaAt = 1000, processing = True,
       aiSpeaking = False, aiSpeakingTimeout = None, streamSid = Some ''MZ1'',
       suspended = AwaitTranscript \<rparr>"
  by (simp add: thinking_example_def new_session_def on_media_def silence_check_def
        processUtterance_def no_streamSid_def concatInt16_def mulawToPcm16_def
        SILENCE_MS_def MIN_AUDIO_SAMPLES_def Let_def)

lemma speaking_example_eq:
  "speaking_example =
     \<lparr> pcmBuffer = [], lastMediaAt = 1000, firstMediaAt = 0, processing = False,
       aiSpeaking = True, aiSpeakingTimeout = Some 220, streamSid = Some ''MZ1'',
       suspended = NotRunning \<rparr>"
  by (simp add: speaking_example_def thinking_example_eq on_transcribed_def on_replied_def
        on_synthesized_def pu_finally_def Let_def)

lemma quiet_listener_eq:
  "quiet_listener =
     \<lparr> pcmBuffer = [replicate 160 0], lastMediaAt = 1000,
       firstMediaAt = 1000, processing = False, aiSpeaking = False,
       aiSpeakingTimeout = None, streamSid = Some ''MZ1'', suspended = NotRunning \<rparr>"
  by (simp add: quiet_listener_def new_session_def on_media_def mulawToPcm16_def decode_FF
        Let_def)

lemma echo_during_speech_eq:
  "echo_during_speech =
     \<lparr> pcmBuffer = [replicate 160 (- 32124)], lastMediaAt = 1000,
       firstMediaAt = 0, processing = False, aiSpeaking = True,
       aiSpeakingTimeout = Some 220, streamSid = Some ''MZ1'', suspended = NotRunning \<rparr>"
  by (simp add: echo_during_speech_def speaking_example_eq on_media_def mulawToPcm16_def
        decode_00 total_samples_def BARGE_IN_THRESHOLD_def Let_def)

lemma awaiting_audio_eq:
  "awaiting_audio =
     \<lparr> pcmBuffer = [], lastMediaAt = 1000, firstMediaAt = 1000, processing = True,
       aiSpeaking = False, aiSpeakingTimeout = None, streamSid = Some ''MZ1'',
       suspended = AwaitAudio \<rparr>"
  by (simp add: awaiting_audio_def thinking_example_eq on_transcribed_def on_replied_def)

subsection \<open>Reachable states\<close>

lemma step_inv: "session_inv s \<Longrightarrow> session_inv (fst (step s e))"
  by (cases e)
     (auto simp: session_inv_def on_media_def silence_check_def processUtterance_def
        pu_finally_def on_transcribed_def on_replied_def on_synthesized_def
        on_speaking_timeout_def Let_def split: option.splits if_splits)

lemma reachable_inv: "reachable s \<Longrightarrow> session_inv s"
proof (induction rule: reachable.induct)
  case (reachable_new t0)
  show ?case by (simp add: session_inv_def new_session_def)
next
  case (reachable_step s e)
  then show ?case by (simp add: step_inv)
qed

lemma reachable_run: "reachable s \<Longrightarrow> reachable (fst (run s es))"
proof (induction es arbitrary: s)
  case Nil
  then show ?case by simp
next
  case (Cons e es)
  have "reachable (fst (step s e))" using Cons.prems by (rule reachable_step)
  from Cons.IH [OF this] show ?case by (simp add: split_beta)
qed

text \<open>
  While no call of \<^verbatim>\<open>processUtterance\<close> is suspended, a callback emits nothing, or it is the
  silence checker handing a new utterance to transcription. So outgoing frames come only
  after such a hand-off.
\<close>

lemma step_idle:
  assumes "suspended s = NotRunning"
  shows "(snd (step s e) = [] \<and> suspended (fst (step s e)) = NotRunning)
         \<or> (\<exists>samples. snd (step s e) = [SttRequest samples])"
  using assms
  by (cases e)
     (auto simp: on_media_def silence_check_def processUtterance_def
        pu_finally_def on_transcribed_def on_replied_def on_synthesized_def
        on_speaking_timeout_def Let_def)

lemma quiet_run:
  assumes "suspended s = NotRunning" and "\<not> list_ex is_stt (snd (run s es))"
  shows "\<not> list_ex is_media (snd (run s es))"
  using assms
proof (induction es arbitrary: s)
  case Nil
  then show ?case by simp
next
  case (Cons e es)
  from step_idle [OF Cons.prems(1), of e] Cons.prems(2)
  have a: "snd (step s e) = []" and b: "suspended (fst (step s e)) = NotRunning"
    by (auto simp: split_beta)
  from Cons.prems(2) have "\<not> list_ex is_stt (snd (run (fst (step s e)) es))"
    by (simp add: split_beta)
  from Cons.IH [OF b this] a show ?case by (simp add: split_beta)
qed

text \<open>
  The frame loop sends media frames only: every whole frame while the socket is open, and
  none otherwise.
\<close>

lemma send_frames_count:
  "readyState = 1 \<Longrightarrow> length (send_frames sid readyState src) = length src div FRAME_SAMPLES"
proof (induction sid readyState src rule: send_frames.induct)
  case (1 sid readyState src)
  show ?case
  proof (cases "length src < FRAME_SAMPLES")
    case True
    then show ?thesis by (subst send_frames.simps) simp
  next
    case False
    then have "length (send_frames sid readyState (drop FRAME_SAMPLES src))
                 = (length src - FRAME_SAMPLES) div FRAME_SAMPLES"
      using "1.IH" "1.prems" by simp
    moreover have "FRAME_SAMPLES > 0" by (simp add: FRAME_SAMPLES_def)
    ultimately show ?thesis
      using False "1.prems" by (subst send_frames.simps) (simp add: le_div_geq)
  qed
qed

lemma send_frames_closed: "readyState \<noteq> 1 \<Longrightarrow> send_frames sid readyState src = []"
  by (subst send_frames.simps) simp

lemma send_frames_media: "list_all is_media (send_frames sid readyState src)"
proof (induction sid readyState src rule: send_frames.induct)
  case (1 sid readyState src)
  then show ?case by (subst send_frames.simps) simp
qed

subsection \<open>Barge-in\<close>

text \<open>
  C1. In every reachable state in which the reply is being spoken, an inbound frame that
  takes the audio accumulated since the reply began above \<^verbatim>\<open>BARGE_IN_THRESHOLD\<close> samples
  ends the speaking state (\<^verbatim>\<open>aiSpeaking\<close> cleared, timer cancelled, nothing being
  processed), keeps the accumulated frames with the new one at the end as the utterance
  buffer, starts the utterance clock, and emits nothing. From then on no outgoing media
  frame is emitted until a new utterance has been handed to transcription: every frame of
  the interrupted reply was written to the socket in the callback that began the reply.
\<close>

theorem barge_in_stops_speech:
  assumes "reachable s" and "aiSpeaking s"
    and "total_samples (pcmBuffer s) + length mu > BARGE_IN_THRESHOLD"
  shows "step s (MsgMedia mu now now2) =
           (s\<lparr>pcmBuffer := pcmBuffer s @ [mulawToPcm16 mu], aiSpeaking := False,
               aiSpeakingTimeout := None, firstMediaAt := now, lastMediaAt := now2\<rparr>, [])
         \<and> \<not> processing (fst (step s (MsgMedia mu now now2)))
         \<and> (\<forall>es. \<not> list_ex is_stt (snd (run (fst (step s (MsgMedia mu now now2))) es))
                \<longrightarrow> \<not> list_ex is_media (snd (run (fst (step s (MsgMedia mu now now2))) es)))"
proof -
  let ?s1 = "fst (step s (MsgMedia mu now now2))"
  have inv: "session_inv s" using assms(1) by (rule reachable_inv)
  have idle: "suspended s = NotRunning" and np: "\<not> processing s"
    using inv assms(2) by (auto simp: session_inv_def)
  have eq: "step s (MsgMedia mu now now2) =
           (s\<lparr>pcmBuffer := pcmBuffer s @ [mulawToPcm16 mu], aiSpeaking := False,
               aiSpeakingTimeout := None, firstMediaAt := now, lastMediaAt := now2\<rparr>, [])"
    using assms(2,3) by (simp add: on_media_def total_samples_def mulawToPcm16_def Let_def)
  have s1: "?s1 = s\<lparr>pcmBuffer := pcmBuffer s @ [mulawToPcm16 mu], aiSpeaking := False,
               aiSpeakingTimeout := None, firstMediaAt := now, lastMediaAt := now2\<rparr>"
    by (simp only: eq fst_conv)
  have idle1: "suspended ?s1 = NotRunning" and np1: "\<not> processing ?s1"
    using idle np by (simp_all only: s1) simp_all
  have "\<forall>es. \<not> list_ex is_stt (snd (run ?s1 es)) \<longrightarrow> \<not> list_ex is_media (snd (run ?s1 es))"
    using quiet_run [OF idle1] by blast
  with eq np1 show ?thesis by blast
qed

text \<open>
  The speaking session, interrupted by 3201 samples: the state after the barge-in, and no
  outgoing frame while the caller goes on, the stale timer event arrives and the silence
  checker runs.
\<close>

theorem barge_in_stops_speech_witness:
  "reachable speaking_example \<and> aiSpeaking speaking_example
   \<and> total_samples (pcmBuffer speaking_example) + length (replicate 3201 (0xFF::byte))
        > BARGE_IN_THRESHOLD
   \<and> step speaking_example (MsgMedia (replicate 3201 0xFF) 2500 2501) =
        (\<lparr> pcmBuffer = [replicate 3201 0], lastMediaAt = 2501, firstMediaAt = 2500,
           processing = False, aiSpeaking = False, aiSpeakingTimeout = None,
           streamSid = Some ''MZ1'', suspended = NotRunning \<rparr>, [])
   \<and> \<not> list_ex is_media
         (snd (run (fst (step speaking_example (MsgMedia (replicate 3201 0xFF) 2500 2501)))
                 [MsgMedia (replicate 160 0xFF) 2520 2520, SpeakingTimeout, IntervalTick 2600]))"
proof -
  have r: "reachable speaking_example"
    unfolding speaking_example_def thinking_example_def
    by (intro reachable_run reachable_new)
  have a: "aiSpeaking speaking_example" by (simp add: speaking_example_eq)
  have t: "total_samples (pcmBuffer speaking_example) + length (replicate 3201 (0xFF::byte))
        > BARGE_IN_THRESHOLD"
    by (simp add: speaking_example_eq total_samples_def BARGE_IN_THRESHOLD_def)
  have d: "mulawToPcm16 (replicate 3201 0xFF) = replicate 3201 0"
    by (simp add: mulawToPcm16_def decode_FF)
  note b = barge_in_stops_speech [OF r a t, of 2500 2501]
  have q: "\<not> list_ex is_stt
         (snd (run (fst (step speaking_example (MsgMedia (replicate 3201 0xFF) 2500 2501)))
                 [MsgMedia (replicate 160 0xFF) 2520 2520, SpeakingTimeout, IntervalTick 2600]))"
    by (simp add: speaking_example_eq on_media_def total_samples_def BARGE_IN_THRESHOLD_def
          mulawToPcm16_def on_speaking_timeout_def silence_check_def no_streamSid_def
          SILENCE_MS_def MAX_UTTERANCE_MS_def Let_def)
  from b q have m: "\<not> list_ex is_media
         (snd (run (fst (step speaking_example (MsgMedia (replicate 3201 0xFF) 2500 2501)))
                 [MsgMedia (replicate 160 0xFF) 2520 2520, SpeakingTimeout, IntervalTick 2600]))"
    by blast
  from b have "step speaking_example (MsgMedia (replicate 3201 0xFF) 2500 2501) =
        (\<lparr> pcmBuffer = [replicate 3201 0], lastMediaAt = 2501, firstMediaAt = 2500,
           processing = False, aiSpeaking = False, aiSpeakingTimeout = None,
           streamSid = Some ''MZ1'', suspended = NotRunning \<rparr>, [])"
    by (simp add: d speaking_example_eq)
  with r a t m show ?thesis by blast
qed

subsection \<open>The silence checker\<close>

text \<open>
  The three guards of the checker: before the stream has started, while the reply is being
  spoken, and while an utterance is being processed, a tick changes nothing and emits
  nothing, however long the silence.
\<close>

lemma silence_check_blocked:
  "no_streamSid s \<or> aiSpeaking s \<or> processing s \<Longrightarrow> silence_check s now = (s, [])"
  by (auto simp: silence_check_def processUtterance_def Let_def)

text \<open>
  C2, as amended. For a session whose stream has started, that is not speaking and has no
  utterance being processed, and whose buffer is not empty: the silence checker closes the
  turn (takes the buffer) if and only if more than \<^verbatim>\<open>SILENCE_MS\<close> have passed since the last
  frame, or the utterance start is recorded and more than \<^verbatim>\<open>MAX_UTTERANCE_MS\<close> have passed
  since it; otherwise it changes nothing. When it closes the turn on fewer than
  \<^verbatim>\<open>MIN_AUDIO_SAMPLES\<close> samples, the buffer is dropped, nothing goes to transcription and
  the session is not processing; on more, the whole buffer goes to transcription.
\<close>

theorem silence_check_finalizes:
  assumes "pcmBuffer s \<noteq> []" and "\<not> no_streamSid s" and "\<not> aiSpeaking s"
    and "\<not> processing s"
  shows "((pcmBuffer (fst (silence_check s now)) = []) =
            (now - lastMediaAt s > SILENCE_MS \<or>
             (firstMediaAt s \<noteq> 0 \<and> now - firstMediaAt s > MAX_UTTERANCE_MS)))
         \<and> (pcmBuffer (fst (silence_check s now)) \<noteq> [] \<longrightarrow> silence_check s now = (s, []))
         \<and> (pcmBuffer (fst (silence_check s now)) = [] \<and>
              length (concatInt16 (pcmBuffer s)) < MIN_AUDIO_SAMPLES \<longrightarrow>
                snd (silence_check s now) = [] \<and>
                \<not> processing (fst (silence_check s now)))
         \<and> (pcmBuffer (fst (silence_check s now)) = [] \<and>
              \<not> length (concatInt16 (pcmBuffer s)) < MIN_AUDIO_SAMPLES \<longrightarrow>
                snd (silence_check s now) = [SttRequest (concatInt16 (pcmBuffer s))] \<and>
                processing (fst (silence_check s now)))"
  using assms
  by (auto simp: silence_check_def processUtterance_def pu_finally_def Let_def)

text \<open>
  The caller with one frame at time 1000: at 1800 the checker waits, at 1801 it closes the
  turn and drops the 160 samples.
\<close>

theorem silence_check_finalizes_witness:
  "pcmBuffer quiet_listener \<noteq> [] \<and> \<not> no_streamSid quiet_listener
   \<and> \<not> aiSpeaking quiet_listener \<and> \<not> processing quiet_listener
   \<and> pcmBuffer (fst (silence_check quiet_listener 1800)) \<noteq> []
   \<and> silence_check quiet_listener 1800 = (quiet_listener, [])
   \<and> pcmBuffer (fst (silence_check quiet_listener 1801)) = []
   \<and> snd (silence_check quiet_listener 1801) = []
   \<and> \<not> processing (fst (silence_check quiet_listener 1801))"
proof -
  have h: "pcmBuffer quiet_listener \<noteq> []" "\<not> no_streamSid quiet_listener"
    "\<not> aiSpeaking quiet_listener" "\<not> processing quiet_listener"
    by (simp_all add: quiet_listener_eq no_streamSid_def)
  have short: "length (concatInt16 (pcmBuffer quiet_listener)) < MIN_AUDIO_SAMPLES"
    by (simp add: quiet_listener_eq concatInt16_def MIN_AUDIO_SAMPLES_def)
  have t0: "\<not> (1800 - lastMediaAt quiet_listener > SILENCE_MS \<or>
             (firstMediaAt quiet_listener \<noteq> 0 \<and>
              1800 - firstMediaAt quiet_listener > MAX_UTTERANCE_MS))"
    by (simp add: quiet_listener_eq SILENCE_MS_def MAX_UTTERANCE_MS_def)
  have t1: "1801 - lastMediaAt quiet_listener > SILENCE_MS"
    by (simp add: quiet_listener_eq SILENCE_MS_def)
  from silence_check_finalizes [OF h, of 1800] t0
  have a: "pcmBuffer (fst (silence_check quiet_listener 1800)) \<noteq> []"
    "silence_check quiet_listener 1800 = (quiet_listener, [])"
    by blast+
  from silence_check_finalizes [OF h, of 1801] t1 short
  have b: "pcmBuffer (fst (silence_check quiet_listener 1801)) = []"
    "snd (silence_check quiet_listener 1801) = []"
    "\<not> processing (fst (silence_check quiet_listener 1801))"
    by blast+
  from h a b show ?thesis by blast
qed

text \<open>
  C2 as stated fails in two sessions with a non-empty buffer and four seconds of silence.
  In the first the reply is being spoken; in the second an utterance is being processed and
  one more frame has arrived. The checker changes nothing in either.
\<close>

theorem silence_check_counterexample:
  "pcmBuffer echo_during_speech \<noteq> []
   \<and> 5000 - lastMediaAt echo_during_speech > SILENCE_MS
   \<and> silence_check echo_during_speech 5000 = (echo_during_speech, [])
   \<and> pcmBuffer (fst (step thinking_example (MsgMedia [0xFF] 1000 1000))) \<noteq> []
   \<and> 5000 - lastMediaAt (fst (step thinking_example (MsgMedia [0xFF] 1000 1000))) > SILENCE_MS
   \<and> silence_check (fst (step thinking_example (MsgMedia [0xFF] 1000 1000))) 5000
       = (fst (step thinking_example (MsgMedia [0xFF] 1000 1000)), [])"
  by (simp add: echo_during_speech_eq thinking_example_eq on_media_def silence_check_def
        processUtterance_def no_streamSid_def SILENCE_MS_def)

subsection \<open>Frames that arrive while an utterance is processed\<close>

text \<open>
  C5, as amended. While an utterance is being processed and no reply is spoken yet, every
  inbound media frame is appended to the utterance buffer and sets the time of the last
  frame (and the utterance start, if none is recorded); nothing is emitted. What has been
  buffered in this way is discarded when the reply starts to be spoken: resuming with the
  synthesized audio leaves the buffer empty.
\<close>

theorem thinking_accepts_frames:
  assumes "processing s" and "\<not> aiSpeaking s"
  shows "step s (MsgMedia mu now now2) =
           (s\<lparr>lastMediaAt := now,
              firstMediaAt := (if firstMediaAt s = 0 then now else firstMediaAt s),
              pcmBuffer := pcmBuffer s @ [mulawToPcm16 mu]\<rparr>, [])
         \<and> (suspended s = AwaitAudio \<longrightarrow>
              pcmBuffer (fst (step s (Synthesized (Some int16) readyState))) = [])"
  using assms by (simp add: on_media_def on_synthesized_def pu_finally_def Let_def)

text \<open>The session that awaits the synthesis takes a frame of two samples, then clears it.\<close>

theorem thinking_accepts_frames_witness:
  "processing awaiting_audio \<and> \<not> aiSpeaking awaiting_audio
   \<and> suspended awaiting_audio = AwaitAudio
   \<and> step awaiting_audio (MsgMedia [0x00, 0xFF] 2100 2100) =
       (\<lparr> pcmBuffer = [[- 32124, 0]], lastMediaAt = 2100, firstMediaAt = 1000,
          processing = True, aiSpeaking = False, aiSpeakingTimeout = None,
          streamSid = Some ''MZ1'', suspended = AwaitAudio \<rparr>, [])
   \<and> pcmBuffer (fst (step awaiting_audio (Synthesized (Some (replicate 480 0)) 1))) = []"
proof -
  have h: "processing awaiting_audio" "\<not> aiSpeaking awaiting_audio"
    and w: "suspended awaiting_audio = AwaitAudio"
    by (simp_all add: awaiting_audio_eq)
  from thinking_accepts_frames [OF h, of "[0x00, 0xFF]" 2100 2100 "replicate 480 0" 1] w
  show ?thesis
    using h by (simp add: awaiting_audio_eq mulawToPcm16_def decode_00 decode_FF)
qed

text \<open>
  C5 as stated fails in the thinking session: its buffer is empty, and after one inbound
  frame of two samples the buffer holds that frame.
\<close>

theorem thinking_accepts_frames_counterexample:
  "processing thinking_example \<and> \<not> aiSpeaking thinking_example
   \<and> suspended thinking_example = AwaitTranscript
   \<and> pcmBuffer thinking_example = []
   \<and> pcmBuffer (fst (step thinking_example (MsgMedia [0x00, 0xFF] 2100 2100))) = [[- 32124, 0]]"
  by (simp add: thinking_example_eq on_media_def mulawToPcm16_def decode_00 decode_FF)

subsection \<open>The natural end of a reply\<close>

text \<open>The timer callback never touches the buffer.\<close>

lemma speaking_timeout_buffer: "pcmBuffer (on_speaking_timeout s) = pcmBuffer s"
  by (simp add: on_speaking_timeout_def)

text \<open>
  C6, evaluated. One frame of 160 samples arrives while the reply is spoken, which is below
  the barge-in threshold, and the speech-finished timer fires. The session is listening
  again and the buffer still holds the 160 samples; when the caller then speaks 4000
  samples and pauses, the utterance handed to transcription begins with them.
\<close>

theorem natural_end_keeps_buffer:
  "aiSpeaking echo_during_speech
   \<and> total_samples (pcmBuffer echo_during_speech) \<le> BARGE_IN_THRESHOLD
   \<and> \<not> aiSpeaking (fst (step echo_during_speech SpeakingTimeout))
   \<and> pcmBuffer (fst (step echo_during_speech SpeakingTimeout)) = [replicate 160 (- 32124)]
   \<and> snd (run echo_during_speech
             [SpeakingTimeout, MsgMedia (replicate 4000 0xFF) 2300 2300, IntervalTick 3200])
       = [SttRequest (replicate 160 (- 32124) @ replicate 4000 0)]"
  by (simp add: echo_during_speech_eq decode_FF total_samples_def BARGE_IN_THRESHOLD_def
        on_speaking_timeout_def on_media_def mulawToPcm16_def silence_check_def
        no_streamSid_def SILENCE_MS_def processUtterance_def concatInt16_def
        MIN_AUDIO_SAMPLES_def Let_def)

section \<open>The tool server, proved\<close>

lemma starts_with_prefix: "starts_with s needle = prefix needle s"
  by (induction s needle rule: starts_with.induct) auto

lemma includes_str_sublist: "includes_str s needle = sublist needle s"
  by (induction s) (simp_all add: sublist_Cons_right starts_with_prefix)

subsection \<open>The coverage check\<close>

text \<open>
  C10. For every input whose \<^verbatim>\<open>payer\<close> is a string, \<^verbatim>\<open>checkInsuranceCoverage\<close> returns
  \<^verbatim>\<open>covered\<close> true exactly when the lower-cased payer has "delta", "blue" or "dental" as a
  substring, \<^verbatim>\<open>copay_estimate\<close> 25 when covered and 0 when not, and leaves the store alone.
\<close>

theorem coverage_rule:
  assumes "get_prop input ''payer'' = Some (JStr payer)"
    and "covered = (sublist ''delta'' (toLowerCase payer) \<or>
                    sublist ''blue'' (toLowerCase payer) \<or>
                    sublist ''dental'' (toLowerCase payer))"
  shows "simulateTool ''checkInsuranceCoverage'' input env store =
           (Inr (JObj [(''covered'', JBool covered),
                       (''copay_estimate'', JNum (if covered then 25 else 0)),
                       (''notes'', JStr (if covered then ''Covered under preventive care''
                                         else ''Not in network - cash pay available''))]),
            store)"
  using assms
  by (simp add: simulateTool_def case_checkInsuranceCoverage_def includes_str_sublist Let_def)

lemma lower_blue: "toLowerCase ''Blue Cross PPO'' = ''blue cross ppo''"
  by code_simp

lemma lower_united: "toLowerCase ''UnitedHealthcare'' = ''unitedhealthcare''"
  by code_simp

lemma sub_blue: "sublist ''blue'' ''blue cross ppo''"
  by code_simp

lemma sub_united:
  "\<not> (sublist ''delta'' ''unitedhealthcare'' \<or> sublist ''blue'' ''unitedhealthcare'' \<or>
      sublist ''dental'' ''unitedhealthcare'')"
  by code_simp

text \<open>A covered payer written with capitals, and one that is not covered.\<close>

theorem coverage_rule_witness:
  "get_prop (JObj [(''payer'', JStr ''Blue Cross PPO''), (''plan'', JStr ''PPO'')]) ''payer''
     = Some (JStr ''Blue Cross PPO'')
   \<and> simulateTool ''checkInsuranceCoverage''
        (JObj [(''payer'', JStr ''Blue Cross PPO''), (''plan'', JStr ''PPO'')]) example_env []
      = (Inr (JObj [(''covered'', JBool True), (''copay_estimate'', JNum 25),
                    (''notes'', JStr ''Covered under preventive care'')]), [])
   \<and> simulateTool ''checkInsuranceCoverage''
        (JObj [(''payer'', JStr ''UnitedHealthcare''), (''plan'', JStr ''HMO'')]) example_env []
      = (Inr (JObj [(''covered'', JBool False), (''copay_estimate'', JNum 0),
                    (''notes'', JStr ''Not in network - cash pay available'')]), [])"
proof -
  have p1: "get_prop (JObj [(''payer'', JStr ''Blue Cross PPO''), (''plan'', JStr ''PPO'')])
              ''payer'' = Some (JStr ''Blue Cross PPO'')"
    by simp
  have p2: "get_prop (JObj [(''payer'', JStr ''UnitedHealthcare''), (''plan'', JStr ''HMO'')])
              ''payer'' = Some (JStr ''UnitedHealthcare'')"
    by simp
  have c1: "True = (sublist ''delta'' (toLowerCase ''Blue Cross PPO'') \<or>
                    sublist ''blue'' (toLowerCase ''Blue Cross PPO'') \<or>
                    sublist ''dental'' (toLowerCase ''Blue Cross PPO''))"
    using sub_blue by (simp add: lower_blue)
  have c2: "False = (sublist ''delta'' (toLowerCase ''UnitedHealthcare'') \<or>
                    sublist ''blue'' (toLowerCase ''UnitedHealthcare'') \<or>
                    sublist ''dental'' (toLowerCase ''UnitedHealthcare''))"
    using sub_united by (simp add: lower_united)
  from coverage_rule [OF p1 c1] coverage_rule [OF p2 c2] p1 show ?thesis
    by simp
qed

subsection \<open>Idempotent booking\<close>
















subsection \<open>Rejection by the input schema\<close>

text \<open>
  C7. For every tool endpoint and every request body that the validator rejects against
  the tool's input schema, the endpoint answers with status 400 and the body
  \<^verbatim>\<open>{ok: false, errors}\<close>, and the server is as before: no booking is stored, nothing is
  logged, and the answer does not depend on anything \<^verbatim>\<open>simulateTool\<close> would have drawn.
\<close>

theorem invalid_input_rejected:
  assumes "tool \<in> set tools"
    and "validate (fst (schemaOf tool)) body = (False, errors)"
  shows "tool_endpoint validate schemaOf tool body env srv =
           (JsonResponse 400 (JObj [(''ok'', JBool False), (''errors'', errors)]), srv)"
  using assms by (simp add: tool_endpoint_def)

text \<open>A booking request without its required key, on a server with an empty store.\<close>

theorem invalid_input_rejected_witness:
  "''bookAppointment'' \<in> set tools
   \<and> example_validate (fst (example_schemaOf ''bookAppointment''))
        (JObj [(''slot'', JStr ''09:00'')])
      = (False, JArr [JStr ''must have required property idempotency_key''])
   \<and> tool_endpoint example_validate example_schemaOf ''bookAppointment''
        (JObj [(''slot'', JStr ''09:00'')]) example_env
        \<lparr> bookingStore = [], systemLog = [] \<rparr>
      = (JsonResponse 400
           (JObj [(''ok'', JBool False),
                  (''errors'', JArr [JStr ''must have required property idempotency_key''])]),
         \<lparr> bookingStore = [], systemLog = [] \<rparr>)"
proof -
  have t: "''bookAppointment'' \<in> set tools"
    by (simp add: tools_def)
  have v: "example_validate (fst (example_schemaOf ''bookAppointment''))
        (JObj [(''slot'', JStr ''09:00'')])
      = (False, JArr [JStr ''must have required property idempotency_key''])"
    by (simp add: example_validate_def example_schemaOf_def)
  from invalid_input_rejected
         [where validate = example_validate and schemaOf = example_schemaOf, OF t v]
       t v
  show ?thesis by simp
qed

section \<open>The agent, proved\<close>

subsection \<open>Merging the extracted slots\<close>

lemma map_of_obj_set: "map_of (obj_set t k v) = (map_of t)(k \<mapsto> v)"
  by (induction t k v rule: obj_set.induct) auto

text \<open>
  \<^verbatim>\<open>Object.assign\<close> lets every property of the source win over the target, the value
  \<^verbatim>\<open>null\<close> included.
\<close>

lemma map_of_object_assign:
  "map_of (object_assign target source) = map_of target ++ map_of (rev source)"
  unfolding object_assign_def
proof (induction source arbitrary: target)
  case Nil
  then show ?case by simp
next
  case (Cons p source)
  obtain k v where p: "p = (k, v)" by (cases p)
  have "map_of (fold (\<lambda>(k, v) t. obj_set t k v) source (obj_set target k v))
          = map_of (obj_set target k v) ++ map_of (rev source)"
    by (rule Cons.IH)
  also have "\<dots> = map_of target ++ map_of (rev source @ [(k, v)])"
    by (auto simp: map_of_obj_set map_add_def fun_eq_iff split: option.splits)
  finally show ?case by (simp add: p)
qed

lemma callCheckInsurance_slots: "slots (callCheckInsurance a payer plan env) = slots a"
  by (simp add: callCheckInsurance_def split: option.splits prod.splits)

lemma callGetAvailability_slots: "slots (callGetAvailability a loc t env) = slots a"
  by (simp add: callGetAvailability_def split: option.splits prod.splits)

lemma slots_after_turn:
  "slots (extractSlotsAndCallTools a (Some extracted) env) = object_assign (slots a) extracted"
  by (simp add: extractSlotsAndCallTools_def callCheckInsurance_slots
        callGetAvailability_slots Let_def split: option.splits)

text \<open>
  C4, evaluated. The first turn extracts the first name "Maya"; the second turn, whose
  utterance gives a phone number and no name, extracts \<^verbatim>\<open>null\<close> for the first name. After
  the first turn the slot \<^verbatim>\<open>patient_first\<close> holds "Maya", after the second it holds
  \<^verbatim>\<open>null\<close>.
\<close>

theorem null_extraction_resets_slot:
  "map_of (slots (turns (new_agent ''call-1'') [(Some extraction_turn1, example_turn_env)]))
     ''patient_first'' = Some (JStr ''Maya'')
   \<and> map_of (slots (turns (new_agent ''call-1'')
                      [(Some extraction_turn1, example_turn_env),
                       (Some extraction_turn2, example_turn_env)]))
       ''patient_first'' = Some JNull"
  by (simp add: slots_after_turn map_of_object_assign new_agent_def extraction_turn1_def
        extraction_turn2_def map_add_def)

subsection \<open>The audit record at teardown\<close>

lemma disconnect_connected:
  "connected a \<Longrightarrow>
   disconnect a sink =
     (a\<lparr>connected := False\<rparr>,
      sink @ [auditData (a\<lparr>connected := False\<rparr>), auditData (a\<lparr>connected := False\<rparr>)])"
  by (simp add: disconnect_def handleDisconnect_def saveAudit_def Let_def)

lemma disconnect_not_connected:
  "\<not> connected a \<Longrightarrow> disconnect a sink = (a, sink @ [auditData a])"
  by (simp add: disconnect_def saveAudit_def)

lemma connect_connected: "connected (connect a room)"
  by (simp add: connect_def split: option.splits)

text \<open>
  C8, evaluated. An agent that has connected, with or without a room from the room
  manager, hands two records to the audit sink when it disconnects.
\<close>

theorem audit_saved_twice:
  "length (snd (disconnect (connect (new_agent ''call-1'') (Some ''call-call-1'')) [])) = 2
   \<and> length (snd (disconnect (connect (new_agent ''call-1'') None) [])) = 2"
  by (simp add: disconnect_connected connect_connected)

end
